theory Spec2Isabelle
  imports Main
begin

section \<open>Data model\<close>

text \<open>
  Python strings are modelled as \<^typ>\<open>string\<close> (code points below 256).  A dictionary
  key that may be missing is an \<^typ>\<open>'a option\<close> field: \<open>None\<close> is "key absent".
  Exceptions are values: \<open>HttpError\<close> is googleapiclient's error, \<open>Exception\<close> stands for
  every other exception (all of them are caught by \<open>except Exception\<close>).
\<close>

datatype exn = HttpError string | Exception string

text \<open>The \<open>body\<close> dictionary of a payload or of a part.\<close>

datatype part_body = PartBody
  (body_data: "string option")
  (body_attachmentId: "string option")
  (body_size: "int option")

text \<open>One content part; \<open>part_parts\<close> is the nested part list, when the key is there.\<close>

datatype part = Part
  (part_mimeType: "string option")
  (part_filename: "string option")
  (part_body: "part_body option")
  (part_parts: "part list option")

record attachment =
  att_filename :: string
  att_mimeType :: string
  att_size :: int
  att_attachmentId :: string

record payload =
  pl_headers :: "(string \<times> string) list option"
  pl_parts :: "part list option"
  pl_body :: "part_body option"

record raw_message =
  rm_id :: string
  rm_threadId :: string
  rm_snippet :: "string option"
  rm_payload :: "payload option"

record raw_thread =
  rt_id :: string
  rt_historyId :: "string option"
  rt_messages :: "raw_message list option"

record message_ref =
  ref_id :: string
  ref_threadId :: string

record list_response =
  nextPageToken :: "string option"
  lr_messages :: "message_ref list option"

text \<open>A message as \<open>email_reader\<close> builds it, and one entry of its \<open>emails\<close> list.\<close>

record message =
  m_id :: string
  m_threadId :: string
  m_date :: string
  m_from :: string
  m_to :: string
  m_subject :: string
  m_snippet :: string
  m_body :: string
  m_attachments :: "attachment list"
  isThreadMessage :: bool

record email =
  threadId :: string
  historyId :: string
  mainEmail :: "message option"
  threadMessages :: "message list"

record reader_output =
  nextPointer :: "string option"
  emails :: "email list"

record label =
  label_id :: string
  label_name :: string

record label_object =
  lo_name :: string
  messageListVisibility :: string
  labelListVisibility :: string

record modify_body =
  addLabelIds :: "string list option"
  removeLabelIds :: "string list option"

text \<open>A content block of the text-generation provider's answer; only a text block has \<open>.text\<close>.\<close>

datatype content_block = TextBlock string | OtherBlock

text \<open>The user row: the three Gmail columns of \<open>models.User\<close>, and the e-mail address.\<close>

record user =
  user_email :: string
  last_pointer :: "string option"
  onboarding_complete :: int
  last_sync :: "nat option"

section \<open>ContentExtractor (gmail\_service.py)\<close>

text \<open>
  \<open>base64.urlsafe_b64decode(data).decode('utf-8', errors='ignore')\<close> is the standard
  library's; it is the parameter \<open>b64\<close>, with \<open>None\<close> when the library raises.
\<close>

definition decode_body :: "(string \<Rightarrow> string option) \<Rightarrow> string option \<Rightarrow> string" where
  "decode_body b64 data =
     (case data of
        None \<Rightarrow> ''''
      | Some d \<Rightarrow>
          if d = '''' then ''''
          else (case b64 d of Some t \<Rightarrow> t | None \<Rightarrow> ''''))"

text \<open>\<open>'data' in part.get('body', {})\<close>\<close>

definition has_data :: "part_body option \<Rightarrow> bool" where
  "has_data b = (case b of None \<Rightarrow> False | Some bd \<Rightarrow> body_data bd \<noteq> None)"

text \<open>\<open>part['body']['data']\<close>, read only where \<open>has_data\<close> holds.\<close>

definition data_of :: "part_body option \<Rightarrow> string option" where
  "data_of b = (case b of None \<Rightarrow> None | Some bd \<Rightarrow> body_data bd)"

text \<open>\<open>part.get('mimeType', '')\<close>\<close>

definition mime_of :: "string option \<Rightarrow> string" where
  "mime_of m = (case m of None \<Rightarrow> '''' | Some t \<Rightarrow> t)"

text \<open>
  \<open>_find_body_in_parts\<close>.  \<open>find_body_loop b64 body_text ps\<close> is the \<open>for\<close> loop with the
  remaining parts \<open>ps\<close> and the current value of the variable \<open>body_text\<close>;
  \<open>find_body_list\<close> is the call on a list, which starts the loop with \<open>""\<close>
  (on the empty list it returns \<open>""\<close> at once, as \<open>if not parts\<close> does).
\<close>

fun find_body_loop :: "(string \<Rightarrow> string option) \<Rightarrow> string \<Rightarrow> part list \<Rightarrow> string"
  and find_body_list :: "(string \<Rightarrow> string option) \<Rightarrow> part list \<Rightarrow> string"
where
  "find_body_loop b64 body_text [] = body_text"
| "find_body_loop b64 body_text (Part mt fn bd None # ps) =
     (if mime_of mt = ''text/plain'' \<and> has_data bd then decode_body b64 (data_of bd)
      else if mime_of mt = ''text/html'' \<and> has_data bd
        then find_body_loop b64 (decode_body b64 (data_of bd)) ps
      else find_body_loop b64 body_text ps)"
| "find_body_loop b64 body_text (Part mt fn bd (Some qs) # ps) =
     (let nested = find_body_list b64 qs in
      if nested \<noteq> '''' then nested
      else if mime_of mt = ''text/plain'' \<and> has_data bd then decode_body b64 (data_of bd)
      else if mime_of mt = ''text/html'' \<and> has_data bd
        then find_body_loop b64 (decode_body b64 (data_of bd)) ps
      else find_body_loop b64 nested ps)"
| "find_body_list b64 ps = (if ps = [] then '''' else find_body_loop b64 '''' ps)"

definition find_body_in_parts :: "(string \<Rightarrow> string option) \<Rightarrow> part list option \<Rightarrow> string" where
  "find_body_in_parts b64 parts =
     (case parts of None \<Rightarrow> '''' | Some ps \<Rightarrow> find_body_list b64 ps)"

text \<open>
  \<open>_extract_attachments\<close>: the attachments of the nested list come first, then the part's
  own.  \<open>part.get('filename')\<close> and \<open>body.get('attachmentId')\<close> are truth tests: the key is
  there and its string is not empty.
\<close>

definition truthy :: "string option \<Rightarrow> bool" where
  "truthy v = (case v of None \<Rightarrow> False | Some t \<Rightarrow> t \<noteq> [])"

definition own_attachment :: "string option \<Rightarrow> string option \<Rightarrow> part_body option \<Rightarrow> attachment list" where
  "own_attachment mt fn bd =
     (case (fn, bd) of
        (Some filename, Some body) \<Rightarrow>
          (case body_attachmentId body of
             Some aid \<Rightarrow>
               if filename \<noteq> [] \<and> aid \<noteq> []
               then [\<lparr>att_filename = filename, att_mimeType = mime_of mt,
                      att_size = (case body_size body of None \<Rightarrow> 0 | Some n \<Rightarrow> n),
                      att_attachmentId = aid\<rparr>]
               else []
           | None \<Rightarrow> [])
      | _ \<Rightarrow> [])"

fun extract_attachments :: "part list \<Rightarrow> attachment list" where
  "extract_attachments [] = []"
| "extract_attachments (Part mt fn bd None # ps) =
     own_attachment mt fn bd @ extract_attachments ps"
| "extract_attachments (Part mt fn bd (Some qs) # ps) =
     extract_attachments qs @ own_attachment mt fn bd @ extract_attachments ps"

text \<open>\<open>_extract_headers\<close>: a later header of the same name overwrites an earlier one.\<close>

definition header_names :: "string list" where
  "header_names = [''Date'', ''From'', ''To'', ''Subject'']"

definition extract_headers :: "(string \<times> string) list \<Rightarrow> (string \<rightharpoonup> string)" where
  "extract_headers headers =
     fold (\<lambda>(name, val) d. if name \<in> set header_names then d(name \<mapsto> val) else d)
       headers Map.empty"

text \<open>\<open>d.get(key, '')\<close>\<close>

definition get_str :: "string option \<Rightarrow> string" where
  "get_str v = (case v of None \<Rightarrow> [] | Some t \<Rightarrow> t)"

section \<open>The external services\<close>

text \<open>
  Every call that leaves the process is a field of the environment: it reads and changes
  the outside world \<open>'s\<close> and either answers or raises.  The model keeps, beside the world,
  the list of the calls made so far.  The instruction text sent to the text-generation
  provider is the field \<open>prompt\<close> (the source's constant has code points that
  \<^typ>\<open>string\<close> cannot hold).
\<close>

datatype event =
    EvMessagesList "string option"
  | EvThreadsGet string
  | EvLabelsList
  | EvLabelsCreate label_object
  | EvMessagesModify string modify_body
  | EvAnthropic string
  | EvCommit
  | EvRollback

record 's env =
  b64decode :: "string \<Rightarrow> string option"
  prompt :: string
  messages_list :: "string option \<Rightarrow> 's \<Rightarrow> (exn + list_response) \<times> 's"
  threads_get :: "string \<Rightarrow> 's \<Rightarrow> (exn + raw_thread) \<times> 's"
  labels_list :: "'s \<Rightarrow> (exn + label list option) \<times> 's"
  labels_create :: "label_object \<Rightarrow> 's \<Rightarrow> (exn + label) \<times> 's"
  messages_modify :: "string \<Rightarrow> modify_body \<Rightarrow> 's \<Rightarrow> (exn + unit) \<times> 's"
  anthropic_create :: "string \<Rightarrow> 's \<Rightarrow> (exn + content_block list) \<times> 's"
  db_commit :: "'s \<Rightarrow> (exn + unit) \<times> 's"
  utcnow :: "'s \<Rightarrow> nat"
  expire_on_commit :: bool

text \<open>
  The state of a run: the outside world, the calls made so far, and the database session
  (its one bit of state is explained with the scheduler).
\<close>

record 's state =
  world :: 's
  calls :: "event list"
  expired :: bool

definition perform :: "event \<Rightarrow> ('s \<Rightarrow> 'a \<times> 's) \<Rightarrow> 's state \<Rightarrow> 'a \<times> 's state" where
  "perform ev f st =
     (case f (world st) of (r, w) \<Rightarrow> (r, st\<lparr>world := w, calls := calls st @ [ev]\<rparr>))"

section \<open>MailboxReader (gmail\_service.py)\<close>

text \<open>The body of the loop over \<open>thread.get('messages', [])\<close>; \<open>n\<close> is the length of that list.\<close>

definition empty_payload :: payload where
  "empty_payload = \<lparr>pl_headers = None, pl_parts = None, pl_body = None\<rparr>"

definition message_body :: "(string \<Rightarrow> string option) \<Rightarrow> payload \<Rightarrow> string" where
  "message_body b64 pl =
     (if pl_parts pl \<noteq> None then find_body_in_parts b64 (pl_parts pl)
      else if pl_body pl \<noteq> None \<and> has_data (pl_body pl) then decode_body b64 (data_of (pl_body pl))
      else [])"

text \<open>\<open>msg.get('payload', {})\<close>\<close>

definition payload_of :: "raw_message \<Rightarrow> payload" where
  "payload_of msg = (case rm_payload msg of None \<Rightarrow> empty_payload | Some p \<Rightarrow> p)"

definition read_message :: "(string \<Rightarrow> string option) \<Rightarrow> nat \<Rightarrow> raw_message \<Rightarrow> message" where
  "read_message b64 n msg =
     (let pl = payload_of msg;
          headers = extract_headers (case pl_headers pl of None \<Rightarrow> [] | Some hs \<Rightarrow> hs);
          body_text = message_body b64 pl;
          attachments = extract_attachments (case pl_parts pl of None \<Rightarrow> [] | Some ps \<Rightarrow> ps);
          is_thread_message = (n > 1)
      in \<lparr>m_id = rm_id msg, m_threadId = rm_threadId msg,
          m_date = get_str (headers ''Date''), m_from = get_str (headers ''From''),
          m_to = get_str (headers ''To''), m_subject = get_str (headers ''Subject''),
          m_snippet = get_str (rm_snippet msg), m_body = body_text,
          m_attachments = attachments, isThreadMessage = is_thread_message\<rparr>)"

text \<open>What one fetched thread adds to \<open>result_emails\<close>: one entry, or nothing.\<close>

definition read_thread :: "(string \<Rightarrow> string option) \<Rightarrow> raw_thread \<Rightarrow> email list" where
  "read_thread b64 thread =
     (let msgs = (case rt_messages thread of None \<Rightarrow> [] | Some ms \<Rightarrow> ms);
          thread_messages = map (read_message b64 (length msgs)) msgs
      in case thread_messages of
           [] \<Rightarrow> []
         | main_email # rest \<Rightarrow>
             [\<lparr>threadId = rt_id thread, historyId = get_str (rt_historyId thread),
               mainEmail = Some main_email, threadMessages = thread_messages\<rparr>])"

text \<open>The loop over the listed messages; the first call that raises ends it.\<close>

fun read_threads :: "'s env \<Rightarrow> message_ref list \<Rightarrow> 's state \<Rightarrow> (exn + email list) \<times> 's state" where
  "read_threads E [] st = (Inr [], st)"
| "read_threads E (m # ms) st =
     (case perform (EvThreadsGet (ref_threadId m)) (threads_get E (ref_threadId m)) st of
        (Inl e, st1) \<Rightarrow> (Inl e, st1)
      | (Inr thread, st1) \<Rightarrow>
          (case read_threads E ms st1 of
             (Inl e, st2) \<Rightarrow> (Inl e, st2)
           | (Inr rest, st2) \<Rightarrow> (Inr (read_thread (b64decode E) thread @ rest), st2)))"

text \<open>\<open>except HttpError as error: raise Exception(f"...{error}")\<close>; anything else passes.\<close>

definition reraise :: "string \<Rightarrow> exn \<Rightarrow> exn" where
  "reraise msg e = (case e of HttpError t \<Rightarrow> Exception (msg @ t) | Exception t \<Rightarrow> Exception t)"

definition email_reader :: "'s env \<Rightarrow> string option \<Rightarrow> 's state \<Rightarrow> (exn + reader_output) \<times> 's state" where
  "email_reader E pointer st =
     (let page_token = (if truthy pointer then pointer else None) in
      case perform (EvMessagesList page_token) (messages_list E page_token) st of
        (Inl e, st1) \<Rightarrow> (Inl (reraise ''Gmail API error: '' e), st1)
      | (Inr response, st1) \<Rightarrow>
          (let next_pointer = nextPageToken response;
               messages = (case lr_messages response of None \<Rightarrow> [] | Some ms \<Rightarrow> ms)
           in case read_threads E messages st1 of
                (Inl e, st2) \<Rightarrow> (Inl (reraise ''Gmail API error: '' e), st2)
              | (Inr result_emails, st2) \<Rightarrow>
                  (Inr \<lparr>nextPointer = next_pointer, emails = result_emails\<rparr>, st2)))"

section \<open>LabelSynchronizer (gmail\_service.py)\<close>

definition get_or_create_label_id :: "'s env \<Rightarrow> string \<Rightarrow> 's state \<Rightarrow> (exn + string) \<times> 's state" where
  "get_or_create_label_id E name st =
     (case perform EvLabelsList (labels_list E) st of
        (Inl e, st1) \<Rightarrow> (Inl (reraise ''Error managing Gmail labels: '' e), st1)
      | (Inr results, st1) \<Rightarrow>
          (let labels = (case results of None \<Rightarrow> [] | Some ls \<Rightarrow> ls) in
           case find (\<lambda>l. label_name l = name) labels of
             Some l \<Rightarrow> (Inr (label_id l), st1)
           | None \<Rightarrow>
               (let label_object = \<lparr>lo_name = name, messageListVisibility = ''show'',
                                    labelListVisibility = ''labelShow''\<rparr> in
                case perform (EvLabelsCreate label_object) (labels_create E label_object) st1 of
                  (Inl e, st2) \<Rightarrow> (Inl (reraise ''Error managing Gmail labels: '' e), st2)
                | (Inr created_label, st2) \<Rightarrow> (Inr (label_id created_label), st2))))"

text \<open>\<open>if add_label_ids:\<close> is a truth test: the argument is neither \<open>None\<close> nor \<open>[]\<close>.\<close>

definition nonempty_list :: "string list option \<Rightarrow> bool" where
  "nonempty_list v = (case v of None \<Rightarrow> False | Some xs \<Rightarrow> xs \<noteq> [])"

definition build_modify_body :: "string list option \<Rightarrow> string list option \<Rightarrow> modify_body" where
  "build_modify_body add_label_ids remove_label_ids =
     \<lparr>addLabelIds = (if nonempty_list add_label_ids then add_label_ids else None),
      removeLabelIds = (if nonempty_list remove_label_ids then remove_label_ids else None)\<rparr>"

definition modify_message_labels ::
  "'s env \<Rightarrow> string \<Rightarrow> string list option \<Rightarrow> string list option \<Rightarrow> 's state \<Rightarrow> (exn + unit) \<times> 's state" where
  "modify_message_labels E message_id add_label_ids remove_label_ids st =
     (let body = build_modify_body add_label_ids remove_label_ids in
      case perform (EvMessagesModify message_id body) (messages_modify E message_id body) st of
        (Inl e, st1) \<Rightarrow> (Inl (reraise ''Error modifying message labels: '' e), st1)
      | (Inr u, st1) \<Rightarrow> (Inr (), st1))"

section \<open>Classifier (labeling\_service.py)\<close>

text \<open>
  \<open>str.strip()\<close> and \<open>str.lower()\<close> on code points below 256: the white space of
  \<open>str.isspace\<close>, and the letters that have a lower-case form there.
\<close>

definition py_isspace :: "char \<Rightarrow> bool" where
  "py_isspace c = ((of_char c :: nat) \<in> {9, 10, 11, 12, 13, 28, 29, 30, 31, 32, 133, 160})"

definition py_strip :: "string \<Rightarrow> string" where
  "py_strip s = rev (dropWhile py_isspace (rev (dropWhile py_isspace s)))"

definition py_lower_char :: "char \<Rightarrow> char" where
  "py_lower_char c =
     (let n = (of_char c :: nat) in
      if (65 \<le> n \<and> n \<le> 90) \<or> (192 \<le> n \<and> n \<le> 222 \<and> n \<noteq> 215)
      then char_of (n + 32) else c)"

definition py_lower :: "string \<Rightarrow> string" where
  "py_lower s = map py_lower_char s"

definition valid_labels :: "string list" where
  "valid_labels = [''action_needed'', ''fyi'', ''spam'', ''extra'']"

text \<open>
  \<open>_analyze_with_anthropic\<close>.  \<open>message.content[0].text\<close> raises on an empty content list
  and on a block that has no text; the \<open>except Exception\<close> turns every raise into
  \<open>'extra'\<close>.
\<close>

definition analyze_with_anthropic :: "'s env \<Rightarrow> string \<Rightarrow> 's state \<Rightarrow> string \<times> 's state" where
  "analyze_with_anthropic E combined_text st =
     (case perform (EvAnthropic (prompt E @ combined_text))
             (anthropic_create E (prompt E @ combined_text)) st of
        (Inl e, st1) \<Rightarrow> (''extra'', st1)
      | (Inr content, st1) \<Rightarrow>
          (case content of
             TextBlock t # rest \<Rightarrow>
               (let lbl = py_lower (py_strip t) in
                if lbl \<notin> set valid_labels then (''extra'', st1) else (lbl, st1))
           | _ \<Rightarrow> (''extra'', st1)))"

section \<open>Labeling pass (labeling\_service.py)\<close>

definition GMAIL_SYSTEM_LABELS :: "string list" where
  "GMAIL_SYSTEM_LABELS =
     [''INBOX'', ''IMPORTANT'', ''STARRED'', ''CATEGORY_PROMOTIONS'', ''CATEGORY_UPDATES'',
      ''CATEGORY_SOCIAL'', ''CATEGORY_FORUMS'']"

text \<open>\<open>label_name_map.get(label, 'EXTRA')\<close>\<close>

definition label_name_map :: "string \<Rightarrow> string" where
  "label_name_map lbl =
     (if lbl = ''action_needed'' then ''ACTION_NEEDED''
      else if lbl = ''fyi'' then ''FYI''
      else if lbl = ''spam'' then ''SPAM''
      else if lbl = ''extra'' then ''EXTRA''
      else ''EXTRA'')"

text \<open>
  Lines 105 to 110: \<open>combined_text\<close> starts as the main message's body, and the loop over
  \<open>thread_messages\<close> appends a newline and the body of every message whose body is not
  empty.
\<close>

definition combined_text_of :: "message \<Rightarrow> message list \<Rightarrow> string" where
  "combined_text_of main_email thread_messages =
     fold (\<lambda>msg acc. if m_body msg \<noteq> [] then acc @ [CHR 0x0A] @ m_body msg else acc)
       thread_messages (m_body main_email)"

text \<open>The body of the loop over \<open>emails\<close>; both \<open>try\<close> blocks swallow what is raised.\<close>

definition label_thread :: "'s env \<Rightarrow> email \<Rightarrow> 's state \<Rightarrow> 's state" where
  "label_thread E em st =
     (case mainEmail em of
        None \<Rightarrow> st
      | Some main_email \<Rightarrow>
          if isThreadMessage main_email then st
          else
            (case analyze_with_anthropic E (combined_text_of main_email (threadMessages em)) st of
               (lbl, st1) \<Rightarrow>
                 (case modify_message_labels E (m_id main_email) None (Some GMAIL_SYSTEM_LABELS) st1 of
                    (removed, st2) \<Rightarrow>
                      (case get_or_create_label_id E (label_name_map lbl) st2 of
                         (Inl e, st3) \<Rightarrow> st3
                       | (Inr lid, st3) \<Rightarrow>
                           snd (modify_message_labels E (m_id main_email) (Some [lid]) None st3)))))"

definition label_email :: "'s env \<Rightarrow> reader_output \<Rightarrow> 's state \<Rightarrow> string \<times> 's state" where
  "label_email E email_reader_output st =
     (''Labeling complete'', fold (label_thread E) (emails email_reader_output) st)"

section \<open>OnboardingScheduler (onboarding\_worker.py)\<close>

text \<open>
  The database session of a cycle.  \<open>expired\<close> says that the rows loaded into the session
  are expired: reading an attribute of a user (\<open>user.email\<close>, \<open>user.last_pointer\<close>) then
  raises, since an asynchronous session cannot reload a row on attribute access.
  \<open>db.rollback()\<close> expires every loaded row, and so does a \<open>db.commit()\<close> that fails; a
  \<open>db.commit()\<close> that answers expires them when the session maker (of \<open>app.database\<close>,
  not among the sources) was built with \<open>expire_on_commit\<close>, a field of the environment.
  \<open>async with async_session_maker() as db\<close> opens a new session, and the query of the
  cycle loads the rows into it.
\<close>

definition expired_row :: exn where
  "expired_row = Exception ''MissingGreenlet''"

definition new_session :: "'s state \<Rightarrow> 's state" where
  "new_session st = st\<lparr>expired := False\<rparr>"

definition rollback :: "'s state \<Rightarrow> 's state" where
  "rollback st = st\<lparr>calls := calls st @ [EvRollback], expired := True\<rparr>"

text \<open>
  \<open>process_user_emails\<close> gives the exception that leaves the function, if one does, the
  user's row as it is stored after the call, and the state.
  \<^item> With expired rows, \<open>user.last_pointer\<close> raises inside the \<open>try\<close>, and \<open>user.email\<close>
    raises again in the handler, before \<open>db.rollback()\<close>: the exception leaves the function.
  \<^item> When the fetch raises, the handler prints, rolls back and the function returns.
  \<^item> When the commit raises, the rows are expired; the handler's \<open>user.email\<close> raises
    before \<open>db.rollback()\<close>, and the exception leaves the function.  Nothing was stored.
  The constructors of the two services and the rollback itself are taken to succeed.
\<close>

definition process_user_emails ::
  "'s env \<Rightarrow> user \<Rightarrow> 's state \<Rightarrow> exn option \<times> user \<times> 's state" where
  "process_user_emails E u st =
     (if expired st then (Some expired_row, u, st)
      else
        (case email_reader E (last_pointer u) st of
           (Inl e, st1) \<Rightarrow> (None, u, rollback st1)
         | (Inr email_reader_output, st1) \<Rightarrow>
             if emails email_reader_output = [] then (None, u, st1)
             else
               (case label_email E email_reader_output st1 of
                  (msg, st2) \<Rightarrow>
                    (let u1 = u\<lparr>last_pointer := nextPointer email_reader_output,
                                 last_sync := Some (utcnow E (world st2))\<rparr>;
                         u2 = (if \<not> truthy (nextPointer email_reader_output)
                               then u1\<lparr>onboarding_complete := 1\<rparr> else u1)
                     in case perform EvCommit (db_commit E) st2 of
                          (Inl e, st3) \<Rightarrow> (Some expired_row, u, st3\<lparr>expired := True\<rparr>)
                        | (Inr ok, st3) \<Rightarrow>
                            (None, u2, st3\<lparr>expired := expire_on_commit E\<rparr>)))))"

text \<open>
  The \<open>for\<close> loop of \<open>run_onboarding_cycle\<close> on the user table.  The rows the query did
  not select (\<open>onboarding_complete\<close> not \<open>0\<close>) are not touched.  For a selected row the
  loop first prints \<open>user.email\<close>: with expired rows this raises, the outer
  \<open>except Exception\<close> catches it and the cycle is over, the remaining rows untouched.  The
  same happens when an exception leaves \<open>process_user_emails\<close>.
\<close>

fun cycle_loop :: "'s env \<Rightarrow> user list \<Rightarrow> 's state \<Rightarrow> user list \<times> 's state" where
  "cycle_loop E [] st = ([], st)"
| "cycle_loop E (u # us) st =
     (if onboarding_complete u \<noteq> 0
      then (case cycle_loop E us st of (us', st2) \<Rightarrow> (u # us', st2))
      else if expired st then (u # us, st)
      else
        (case process_user_emails E u st of
           (Some e, u', st1) \<Rightarrow> (u' # us, st1)
         | (None, u', st1) \<Rightarrow>
             (case cycle_loop E us st1 of (us', st2) \<Rightarrow> (u' # us', st2))))"

text \<open>
  \<open>run_onboarding_cycle\<close>: a new session, then the loop.  The query itself is taken to
  succeed (when it raises, the cycle ends with no row changed).
\<close>

definition run_onboarding_cycle :: "'s env \<Rightarrow> user list \<Rightarrow> 's state \<Rightarrow> user list \<times> 's state" where
  "run_onboarding_cycle E us st = cycle_loop E us (new_session st)"


section \<open>A simulated provider\<close>

text \<open>
  A concrete outside world, for running the model: the mailbox provider's pages, threads,
  labels and the label set of each message, the text-generation provider's answer, the
  clock, and whether the database accepts a commit.
\<close>

record mailbox =
  mb_pages :: "(string option \<times> list_response) list"
  mb_threads :: "(string \<times> raw_thread) list"
  mb_labels :: "label list"
  mb_message_labels :: "string \<rightharpoonup> string set"
  mb_answer :: "string option"
  mb_clock :: nat
  mb_commit_ok :: bool

text \<open>
  Modelled from the spec: the mailbox provider's endpoint for "message label add/remove"
  is an external service, not code of the repository.  On a message it knows, it takes
  the labels of the request's remove list out of the message's label set and puts the
  labels of its add list in; an absent list counts as empty.  On a message it does not
  know, it raises \<open>HttpError\<close> and changes nothing.
\<close>

definition gmail_modify :: "string \<Rightarrow> modify_body \<Rightarrow> mailbox \<Rightarrow> (exn + unit) \<times> mailbox" where
  "gmail_modify message_id body w =
     (case mb_message_labels w message_id of
        None \<Rightarrow> (Inl (HttpError ''404''), w)
      | Some ls \<Rightarrow>
          (Inr (),
           w\<lparr>mb_message_labels := (mb_message_labels w)(message_id \<mapsto>
                (ls - set (case removeLabelIds body of None \<Rightarrow> [] | Some xs \<Rightarrow> xs))
                \<union> set (case addLabelIds body of None \<Rightarrow> [] | Some xs \<Rightarrow> xs))\<rparr>))"

text \<open>Base64 facts of the standard library, for the payloads used below.\<close>

definition sim_b64 :: "string \<Rightarrow> string option" where
  "sim_b64 d =
     (if d = ''aGk='' then Some ''hi''
      else if d = ''PGI-aGk8L2I-'' then Some ''<b>hi</b>''
      else if d = ''aGVsbG8='' then Some ''hello''
      else None)"

definition sim_env :: "mailbox env" where
  "sim_env =
     \<lparr>b64decode = sim_b64,
      prompt = ''Return only one word. Email content: '',
      messages_list = (\<lambda>tok w. case map_of (mb_pages w) tok of
                          None \<Rightarrow> (Inl (HttpError ''400''), w)
                        | Some r \<Rightarrow> (Inr r, w)),
      threads_get = (\<lambda>tid w. case map_of (mb_threads w) tid of
                          None \<Rightarrow> (Inl (HttpError ''404''), w)
                        | Some t \<Rightarrow> (Inr t, w)),
      labels_list = (\<lambda>w. (Inr (Some (mb_labels w)), w)),
      labels_create = (\<lambda>lo w.
         (Inr \<lparr>label_id = ''Label_'' @ lo_name lo, label_name = lo_name lo\<rparr>,
          w\<lparr>mb_labels := mb_labels w
               @ [\<lparr>label_id = ''Label_'' @ lo_name lo, label_name = lo_name lo\<rparr>]\<rparr>)),
      messages_modify = gmail_modify,
      anthropic_create = (\<lambda>content w. case mb_answer w of
                             None \<Rightarrow> (Inl (Exception ''overloaded''), w)
                           | Some t \<Rightarrow> (Inr [TextBlock t], w)),
      db_commit = (\<lambda>w. if mb_commit_ok w then (Inr (), w) else (Inl (Exception ''commit''), w)),
      utcnow = mb_clock,
      expire_on_commit = False\<rparr>"

text \<open>A mailbox with no message at all: one page, without messages and without a token.\<close>

definition empty_mailbox :: mailbox where
  "empty_mailbox =
     \<lparr>mb_pages = [(None, \<lparr>nextPageToken = None, lr_messages = None\<rparr>)],
      mb_threads = [], mb_labels = [], mb_message_labels = Map.empty,
      mb_answer = Some ''fyi'', mb_clock = 7, mb_commit_ok = True\<rparr>"

definition plain_message :: "string \<Rightarrow> string \<Rightarrow> string \<Rightarrow> raw_message" where
  "plain_message mid tid d =
     \<lparr>rm_id = mid, rm_threadId = tid, rm_snippet = None,
      rm_payload = Some \<lparr>pl_headers = Some [(''Subject'', ''Form'')], pl_parts = None,
                         pl_body = Some (PartBody (Some d) None None)\<rparr>\<rparr>"

text \<open>
  A mailbox with one thread \<open>t1\<close> of one message \<open>m1\<close>, whose top-level body is
  \<open>hello\<close>, on a single page.
\<close>

definition one_mailbox :: mailbox where
  "one_mailbox =
     \<lparr>mb_pages = [(None, \<lparr>nextPageToken = None,
                            lr_messages = Some [\<lparr>ref_id = ''m1'', ref_threadId = ''t1''\<rparr>]\<rparr>)],
      mb_threads = [(''t1'', \<lparr>rt_id = ''t1'', rt_historyId = Some ''9'',
                             rt_messages = Some [plain_message ''m1'' ''t1'' ''aGVsbG8='']\<rparr>)],
      mb_labels = [], mb_message_labels = [''m1'' \<mapsto> {''INBOX''}],
      mb_answer = Some '' FYI '', mb_clock = 7, mb_commit_ok = True\<rparr>"

text \<open>
  A mailbox with one thread \<open>t2\<close> of two messages, listed on a page that has a next
  page token.
\<close>

definition two_mailbox :: mailbox where
  "two_mailbox =
     \<lparr>mb_pages = [(None, \<lparr>nextPageToken = Some ''p2'',
                            lr_messages = Some [\<lparr>ref_id = ''m3'', ref_threadId = ''t2''\<rparr>]\<rparr>)],
      mb_threads = [(''t2'', \<lparr>rt_id = ''t2'', rt_historyId = None,
                             rt_messages = Some [plain_message ''m2'' ''t2'' ''aGk='',
                                                 plain_message ''m3'' ''t2'' ''aGVsbG8='']\<rparr>)],
      mb_labels = [], mb_message_labels = [''m2'' \<mapsto> {''INBOX''}, ''m3'' \<mapsto> {''INBOX''}],
      mb_answer = Some ''spam'', mb_clock = 7, mb_commit_ok = True\<rparr>"

definition start_state :: "'s \<Rightarrow> 's state" where
  "start_state w = \<lparr>world = w, calls = [], expired = False\<rparr>"

definition new_user :: user where
  "new_user = \<lparr>user_email = ''a@example.org'', last_pointer = None,
               onboarding_complete = 0, last_sync = None\<rparr>"

text \<open>What the model computes on \<open>one_mailbox\<close>: the message read, the mailbox after the
  labeling pass, and the user's row after the cycle.\<close>

definition hello_message :: message where
  "hello_message =
     \<lparr>m_id = ''m1'', m_threadId = ''t1'', m_date = [], m_from = [], m_to = [],
      m_subject = ''Form'', m_snippet = [], m_body = ''hello'', m_attachments = [],
      isThreadMessage = False\<rparr>"

definition hello_thread :: email where
  "hello_thread =
     \<lparr>threadId = ''t1'', historyId = ''9'', mainEmail = Some hello_message,
      threadMessages = [hello_message]\<rparr>"

definition labelled_one :: mailbox where
  "labelled_one =
     one_mailbox\<lparr>mb_labels := [\<lparr>label_id = ''Label_FYI'', label_name = ''FYI''\<rparr>],
                 mb_message_labels := [''m1'' \<mapsto> {''Label_FYI''}]\<rparr>"

definition done_user :: user where
  "done_user = new_user\<lparr>last_pointer := None, last_sync := Some 7, onboarding_complete := 1\<rparr>"

definition bad_user :: user where
  "bad_user = new_user\<lparr>last_pointer := Some ''bad''\<rparr>"

text \<open>A mailbox whose only page has a next page token and an empty message list.\<close>

definition token_mailbox :: mailbox where
  "token_mailbox =
     empty_mailbox\<lparr>mb_pages := [(None, \<lparr>nextPageToken = Some ''p2'', lr_messages = Some []\<rparr>)]\<rparr>"

text \<open>
  A provider that only records the modify requests it receives, in the order it receives
  them; every other call raises.
\<close>

definition spy_env :: "(string \<times> modify_body) list env" where
  "spy_env =
     \<lparr>b64decode = (\<lambda>d. None),
      prompt = [],
      messages_list = (\<lambda>tok w. (Inl (HttpError ''501''), w)),
      threads_get = (\<lambda>tid w. (Inl (HttpError ''501''), w)),
      labels_list = (\<lambda>w. (Inl (HttpError ''501''), w)),
      labels_create = (\<lambda>lo w. (Inl (HttpError ''501''), w)),
      messages_modify = (\<lambda>message_id body w. (Inr (), w @ [(message_id, body)])),
      anthropic_create = (\<lambda>content w. (Inl (Exception ''501''), w)),
      db_commit = (\<lambda>w. (Inl (Exception ''501''), w)),
      utcnow = (\<lambda>w. 0),
      expire_on_commit = False\<rparr>"

text \<open>
  A mailbox that changes while a batch is read.  The page lists two messages of the thread
  \<open>t1\<close>; the first \<open>threads.get\<close> answers with both messages \<open>m1\<close> and \<open>m2\<close>, the
  second, after \<open>m2\<close> is gone, with \<open>m1\<close> alone: every answer of \<open>racy_env\<close> uses up the
  snapshot it gave.
\<close>

definition racy_env :: "mailbox env" where
  "racy_env =
     sim_env\<lparr>threads_get := (\<lambda>tid w. case map_of (mb_threads w) tid of
                 None \<Rightarrow> (Inl (HttpError ''404''), w)
               | Some t \<Rightarrow> (Inr t, w\<lparr>mb_threads := remove1 (tid, t) (mb_threads w)\<rparr>))\<rparr>"

definition racy_mailbox :: mailbox where
  "racy_mailbox =
     \<lparr>mb_pages = [(None, \<lparr>nextPageToken = None,
                            lr_messages = Some [\<lparr>ref_id = ''m2'', ref_threadId = ''t1''\<rparr>,
                                                \<lparr>ref_id = ''m1'', ref_threadId = ''t1''\<rparr>]\<rparr>)],
      mb_threads = [(''t1'', \<lparr>rt_id = ''t1'', rt_historyId = None,
                             rt_messages = Some [plain_message ''m1'' ''t1'' ''aGk='',
                                                 plain_message ''m2'' ''t1'' ''aGVsbG8='']\<rparr>),
                    (''t1'', \<lparr>rt_id = ''t1'', rt_historyId = None,
                             rt_messages = Some [plain_message ''m1'' ''t1'' ''aGk='']\<rparr>)],
      mb_labels = [\<lparr>label_id = ''Label_7'', label_name = ''SPAM''\<rparr>],
      mb_message_labels = [''m1'' \<mapsto> {''INBOX''}, ''m2'' \<mapsto> {''INBOX''}],
      mb_answer = Some ''spam'', mb_clock = 7, mb_commit_ok = True\<rparr>"

text \<open>The two entries \<open>email_reader\<close> makes of it.\<close>

definition racy_first :: email where
  "racy_first =
     \<lparr>threadId = ''t1'', historyId = [],
      mainEmail = Some (read_message sim_b64 2 (plain_message ''m1'' ''t1'' ''aGk='')),
      threadMessages = [read_message sim_b64 2 (plain_message ''m1'' ''t1'' ''aGk=''),
                        read_message sim_b64 2 (plain_message ''m2'' ''t1'' ''aGVsbG8='')]\<rparr>"

definition racy_second :: email where
  "racy_second =
     \<lparr>threadId = ''t1'', historyId = [],
      mainEmail = Some (read_message sim_b64 1 (plain_message ''m1'' ''t1'' ''aGk='')),
      threadMessages = [read_message sim_b64 1 (plain_message ''m1'' ''t1'' ''aGk='')]\<rparr>"

definition racy_batch :: reader_output where
  "racy_batch = \<lparr>nextPointer = None, emails = [racy_first, racy_second]\<rparr>"

section \<open>Reading the list of calls\<close>

text \<open>The message a call changes the labels of, and the text a call sends to be classified.\<close>

fun modified_id :: "event \<Rightarrow> string list" where
  "modified_id (EvMessagesModify mid b) = [mid]"
| "modified_id ev = []"

definition modified_ids :: "event list \<Rightarrow> string list" where
  "modified_ids evs = concat (map modified_id evs)"

fun classified_text :: "event \<Rightarrow> string list" where
  "classified_text (EvAnthropic c) = [c]"
| "classified_text ev = []"

definition classified_texts :: "event list \<Rightarrow> string list" where
  "classified_texts evs = concat (map classified_text evs)"

text \<open>The calls made after the state \<open>st\<close>, in a later state \<open>st'\<close>.\<close>

definition calls_since :: "'s state \<Rightarrow> 's state \<Rightarrow> event list" where
  "calls_since st st' = drop (length (calls st)) (calls st')"

text \<open>
  The threads of a batch that the labeling pass does not skip: those with a main message
  that is not flagged as a thread message.
\<close>

definition is_labelled :: "email \<Rightarrow> bool" where
  "is_labelled em = (case mainEmail em of None \<Rightarrow> False | Some m \<Rightarrow> \<not> isThreadMessage m)"

definition labelled_ids :: "reader_output \<Rightarrow> string list" where
  "labelled_ids out =
     concat (map (\<lambda>em. case mainEmail em of None \<Rightarrow> [] | Some m \<Rightarrow> [m_id m])
                 (filter is_labelled (emails out)))"

text \<open>The texts the labeling pass sends to be classified: one for each thread it does not skip.\<close>

definition labelled_texts :: "'s env \<Rightarrow> reader_output \<Rightarrow> string list" where
  "labelled_texts E out =
     concat (map (\<lambda>em. case mainEmail em of
                          None \<Rightarrow> []
                        | Some m \<Rightarrow> [prompt E @ combined_text_of m (threadMessages em)])
                 (filter is_labelled (emails out)))"

text \<open>What \<open>email_reader\<close> makes of the thread of \<open>two_mailbox\<close>.\<close>

definition two_thread :: email where
  "two_thread =
     \<lparr>threadId = ''t2'', historyId = [], mainEmail = Some (read_message sim_b64 2 (plain_message ''m2'' ''t2'' ''aGk='')),
      threadMessages = [read_message sim_b64 2 (plain_message ''m2'' ''t2'' ''aGk=''),
                        read_message sim_b64 2 (plain_message ''m3'' ''t2'' ''aGVsbG8='')]\<rparr>"

text \<open>A message with neither a part list nor a top-level body.\<close>

definition bare_message :: raw_message where
  "bare_message = \<lparr>rm_id = ''m9'', rm_threadId = ''t9'', rm_snippet = Some ''..'', rm_payload = None\<rparr>"

text \<open>
  Part lists for the content extractor: an HTML part and a plain-text part, both with
  inline data, as siblings and with the HTML part inside a nested list that comes first.
\<close>

definition html_part :: part where
  "html_part = Part (Some ''text/html'') None (Some (PartBody (Some ''PGI-aGk8L2I-'') None None)) None"

definition plain_part :: part where
  "plain_part = Part (Some ''text/plain'') None (Some (PartBody (Some ''aGk='') None None)) None"

definition html_then_plain :: "part list" where
  "html_then_plain = [html_part, plain_part]"

definition nested_html_then_plain :: "part list" where
  "nested_html_then_plain = [Part (Some ''multipart/related'') None None (Some [html_part]), plain_part]"

text \<open>A plain-text part with inline data.\<close>

definition is_plain :: "part \<Rightarrow> bool" where
  "is_plain p = (mime_of (part_mimeType p) = ''text/plain'' \<and> has_data (part_body p))"

section \<open>Basic facts\<close>

lemma perform_calls: "calls (snd (perform ev f st)) = calls st @ [ev]"
  by (simp add: perform_def split: prod.splits)

lemma perform_world: "world (snd (perform ev f st)) = snd (f (world st))"
  by (simp add: perform_def split: prod.splits)

lemma perform_fst: "fst (perform ev f st) = fst (f (world st))"
  by (simp add: perform_def split: prod.splits)

lemma modify_message_labels_fst:
  "fst (modify_message_labels E mid add rem st)
     = (case fst (messages_modify E mid (build_modify_body add rem) (world st)) of
          Inl e \<Rightarrow> Inl (reraise ''Error modifying message labels: '' e)
        | Inr u \<Rightarrow> Inr ())"
  by (simp add: modify_message_labels_def perform_def Let_def split: prod.splits sum.splits)

lemma modify_message_labels_world:
  "world (snd (modify_message_labels E mid add rem st))
     = snd (messages_modify E mid (build_modify_body add rem) (world st))"
  by (simp add: modify_message_labels_def perform_def Let_def split: prod.splits sum.splits)

lemma modify_message_labels_calls:
  "calls (snd (modify_message_labels E mid add rem st))
     = calls st @ [EvMessagesModify mid (build_modify_body add rem)]"
  by (simp add: modify_message_labels_def perform_def Let_def split: prod.splits sum.splits)

lemma sim_env_anthropic:
  "anthropic_create sim_env c w =
     (case mb_answer w of None \<Rightarrow> (Inl (Exception ''overloaded''), w)
      | Some t \<Rightarrow> (Inr [TextBlock t], w))"
  by (simp add: sim_env_def)

lemma sim_env_modify: "messages_modify sim_env = gmail_modify"
  by (simp add: sim_env_def)

lemma analyze_sim:
  "fst (analyze_with_anthropic sim_env txt (start_state w)) =
     (case mb_answer w of None \<Rightarrow> ''extra''
      | Some t \<Rightarrow> if py_lower (py_strip t) \<in> set valid_labels then py_lower (py_strip t)
                  else ''extra'')"
  by (simp add: analyze_with_anthropic_def perform_def sim_env_anthropic start_state_def Let_def
        split: option.splits)

lemma norm_FYI: "py_lower (py_strip '' FYI '') = ''fyi''"
  by code_simp

lemma norm_maybe: "py_lower (py_strip ''maybe'') = ''maybe''"
  by code_simp

section \<open>Classifier\<close>

text \<open>
  C6.  For every input text and every behaviour of the text-generation provider,
  \<open>_analyze_with_anthropic\<close> returns one of the four labels \<open>action_needed\<close>, \<open>fyi\<close>,
  \<open>spam\<close>, \<open>extra\<close>, and it always returns (the model is a total function whose result
  is a label, never an exception).  The result is the trimmed, lower-cased text of the
  provider's first content block when that is one of the four labels; when the provider
  raises, answers with no content, with a first block that has no text, or with any other
  text, the result is \<open>extra\<close>.
\<close>

theorem analyze_with_anthropic_label:
  "fst (analyze_with_anthropic E txt st) \<in> set valid_labels
   \<and> fst (analyze_with_anthropic E txt st)
       = (case fst (anthropic_create E (prompt E @ txt) (world st)) of
            Inl e \<Rightarrow> ''extra''
          | Inr [] \<Rightarrow> ''extra''
          | Inr (OtherBlock # rest) \<Rightarrow> ''extra''
          | Inr (TextBlock t # rest) \<Rightarrow>
              if py_lower (py_strip t) \<in> set valid_labels then py_lower (py_strip t)
              else ''extra'')"
  by (auto simp: analyze_with_anthropic_def perform_def valid_labels_def Let_def
           split: prod.splits sum.splits list.splits content_block.splits)

text \<open>
  The answer \<open>" FYI "\<close> gives \<open>fyi\<close>; the answer \<open>maybe\<close> and a provider that raises
  give \<open>extra\<close>.
\<close>

theorem analyze_with_anthropic_label_witness:
  "fst (analyze_with_anthropic sim_env ''hello'' (start_state one_mailbox)) = ''fyi''
   \<and> fst (analyze_with_anthropic sim_env ''hello''
            (start_state (one_mailbox\<lparr>mb_answer := Some ''maybe''\<rparr>))) = ''extra''
   \<and> fst (analyze_with_anthropic sim_env ''hello''
            (start_state (one_mailbox\<lparr>mb_answer := None\<rparr>))) = ''extra''"
proof -
  have a: "mb_answer one_mailbox = Some '' FYI ''" by (simp add: one_mailbox_def)
  have v: "''fyi'' \<in> set valid_labels" "''maybe'' \<notin> set valid_labels"
    by (simp_all add: valid_labels_def)
  from analyze_with_anthropic_label [of sim_env "''hello''" "start_state one_mailbox"] a v
  show ?thesis by (simp add: analyze_sim norm_FYI norm_maybe)
qed

section \<open>LabelSynchronizer\<close>

text \<open>
  C8.  Every call of \<open>modify_message_labels\<close> issues exactly one modify request: the
  provider's endpoint is applied once, to the message id and to the body built from the
  two lists, and its effect on the outside world and its outcome (an \<open>HttpError\<close>
  re-raised as an exception) are those of the call.  That body has the key
  \<open>addLabelIds\<close> if and only if the supplied add list is given and not empty, and the key
  \<open>removeLabelIds\<close> if and only if the supplied remove list is given and not empty; a list
  that is there is the supplied one, and no list is ever sent empty.
\<close>

theorem modify_message_labels_request:
  "world (snd (modify_message_labels E mid add rem st))
     = snd (messages_modify E mid (build_modify_body add rem) (world st))
   \<and> fst (modify_message_labels E mid add rem st)
     = (case fst (messages_modify E mid (build_modify_body add rem) (world st)) of
          Inl e \<Rightarrow> Inl (reraise ''Error modifying message labels: '' e)
        | Inr u \<Rightarrow> Inr ())
   \<and> calls (snd (modify_message_labels E mid add rem st))
     = calls st @ [EvMessagesModify mid (build_modify_body add rem)]
   \<and> (addLabelIds (build_modify_body add rem) \<noteq> None) = (add \<noteq> None \<and> add \<noteq> Some [])
   \<and> (removeLabelIds (build_modify_body add rem) \<noteq> None) = (rem \<noteq> None \<and> rem \<noteq> Some [])
   \<and> addLabelIds (build_modify_body add rem) \<in> {None, add}
   \<and> removeLabelIds (build_modify_body add rem) \<in> {None, rem}
   \<and> addLabelIds (build_modify_body add rem) \<noteq> Some []
   \<and> removeLabelIds (build_modify_body add rem) \<noteq> Some []"
proof -
  have a: "(addLabelIds (build_modify_body add rem) \<noteq> None) = (add \<noteq> None \<and> add \<noteq> Some [])"
    by (cases add) (auto simp: build_modify_body_def nonempty_list_def)
  have r: "(removeLabelIds (build_modify_body add rem) \<noteq> None) = (rem \<noteq> None \<and> rem \<noteq> Some [])"
    by (cases rem) (auto simp: build_modify_body_def nonempty_list_def)
  have m: "addLabelIds (build_modify_body add rem) \<in> {None, add}"
     "removeLabelIds (build_modify_body add rem) \<in> {None, rem}"
    by (auto simp: build_modify_body_def)
  have n: "addLabelIds (build_modify_body add rem) \<noteq> Some []"
     "removeLabelIds (build_modify_body add rem) \<noteq> Some []"
    by (auto simp: build_modify_body_def nonempty_list_def)
  from modify_message_labels_world [of E mid add rem st]
    modify_message_labels_fst [of E mid add rem st]
    modify_message_labels_calls [of E mid add rem st] a r m n
  show ?thesis by (intro conjI)
qed

text \<open>
  An add list of one label and an empty remove list, sent to the provider that records what
  it receives: it receives one request, for \<open>m1\<close>, with the add list and no remove list.
  With both lists empty it receives one request with an empty body.
\<close>

theorem modify_message_labels_request_witness:
  "world (snd (modify_message_labels spy_env ''m1'' (Some [''Label_FYI'']) (Some [])
                 (start_state [])))
     = [(''m1'', \<lparr>addLabelIds = Some [''Label_FYI''], removeLabelIds = None\<rparr>)]
   \<and> world (snd (modify_message_labels spy_env ''m1'' (Some []) None (start_state [])))
     = [(''m1'', \<lparr>addLabelIds = None, removeLabelIds = None\<rparr>)]
   \<and> fst (modify_message_labels spy_env ''m1'' (Some [''Label_FYI'']) (Some []) (start_state []))
     = Inr ()
   \<and> calls (snd (modify_message_labels spy_env ''m1'' (Some [''Label_FYI'']) (Some [])
                 (start_state [])))
     = [EvMessagesModify ''m1'' \<lparr>addLabelIds = Some [''Label_FYI''], removeLabelIds = None\<rparr>]"
proof -
  have s: "messages_modify spy_env = (\<lambda>message_id body w. (Inr (), w @ [(message_id, body)]))"
    by (simp add: spy_env_def)
  from modify_message_labels_request [of spy_env "''m1''" "Some [''Label_FYI'']" "Some []"
      "start_state []"]
    modify_message_labels_request [of spy_env "''m1''" "Some []" None "start_state []"]
  show ?thesis
    by (simp add: s build_modify_body_def nonempty_list_def start_state_def)
qed

text \<open>The provider's modify endpoint, done twice with one request, is as done once.\<close>

lemma gmail_modify_twice:
  "gmail_modify mid b (snd (gmail_modify mid b w)) = gmail_modify mid b w"
proof (cases "mb_message_labels w mid")
  case None
  then show ?thesis by (simp add: gmail_modify_def)
next
  case (Some ls)
  have "(ls - R \<union> A) - R \<union> A = ls - R \<union> A" for R A :: "string set"
    by blast
  with Some show ?thesis by (simp add: gmail_modify_def)
qed

text \<open>
  C9.  Against a mailbox provider whose modify endpoint takes the remove list out of the
  message's label set and puts the add list in, \<open>modify_message_labels\<close> is idempotent:
  calling it a second time with the same message and the same add and remove lists
  leaves the provider's state, and so the label set of every message, as the first call
  left it, and the second call ends as the first did (both return, or both raise the
  same exception).
\<close>

theorem modify_message_labels_idempotent:
  assumes "messages_modify E = gmail_modify"
  shows "world (snd (modify_message_labels E mid add rem
                  (snd (modify_message_labels E mid add rem st))))
           = world (snd (modify_message_labels E mid add rem st))
         \<and> fst (modify_message_labels E mid add rem
                  (snd (modify_message_labels E mid add rem st)))
           = fst (modify_message_labels E mid add rem st)"
  by (simp add: modify_message_labels_fst modify_message_labels_world assms gmail_modify_twice)

text \<open>
  Message \<open>m1\<close> with the label \<open>INBOX\<close>: removing \<open>INBOX\<close> and adding \<open>L1\<close> gives the
  label set \<open>{L1}\<close> after one call and after two.
\<close>

theorem modify_message_labels_idempotent_witness:
  "mb_message_labels (world (snd (modify_message_labels sim_env ''m1'' (Some [''L1'']) (Some [''INBOX''])
       (snd (modify_message_labels sim_env ''m1'' (Some [''L1'']) (Some [''INBOX''])
          (start_state one_mailbox)))))) ''m1'' = Some {''L1''}
   \<and> mb_message_labels (world (snd (modify_message_labels sim_env ''m1'' (Some [''L1'']) (Some [''INBOX''])
          (start_state one_mailbox)))) ''m1'' = Some {''L1''}"
proof -
  have one: "mb_message_labels (world (snd (modify_message_labels sim_env ''m1'' (Some [''L1''])
          (Some [''INBOX'']) (start_state one_mailbox)))) ''m1'' = Some {''L1''}"
    by (simp add: modify_message_labels_world sim_env_modify gmail_modify_def
          build_modify_body_def nonempty_list_def start_state_def one_mailbox_def)
  from modify_message_labels_idempotent [OF sim_env_modify, of "''m1''" "Some [''L1'']"
      "Some [''INBOX'']" "start_state one_mailbox"] one
  show ?thesis by simp
qed

section \<open>The simulated provider, evaluated\<close>

lemma sim_env_list:
  "messages_list sim_env tok w =
     (case map_of (mb_pages w) tok of None \<Rightarrow> (Inl (HttpError ''400''), w) | Some r \<Rightarrow> (Inr r, w))"
  by (simp add: sim_env_def)

lemma sim_env_get:
  "threads_get sim_env tid w =
     (case map_of (mb_threads w) tid of None \<Rightarrow> (Inl (HttpError ''404''), w) | Some t \<Rightarrow> (Inr t, w))"
  by (simp add: sim_env_def)

lemma sim_env_labels: "labels_list sim_env w = (Inr (Some (mb_labels w)), w)"
  by (simp add: sim_env_def)

lemma sim_env_create:
  "labels_create sim_env lo w =
     (Inr \<lparr>label_id = ''Label_'' @ lo_name lo, label_name = lo_name lo\<rparr>,
      w\<lparr>mb_labels := mb_labels w
           @ [\<lparr>label_id = ''Label_'' @ lo_name lo, label_name = lo_name lo\<rparr>]\<rparr>)"
  by (simp add: sim_env_def)

lemma sim_env_commit:
  "db_commit sim_env w = (if mb_commit_ok w then (Inr (), w) else (Inl (Exception ''commit''), w))"
  by (simp add: sim_env_def)

lemma sim_env_misc:
  "utcnow sim_env = mb_clock" "b64decode sim_env = sim_b64"
  "prompt sim_env = ''Return only one word. Email content: ''"
  "expire_on_commit sim_env = False"
  by (simp_all add: sim_env_def)

lemmas sim_env_calls = sim_env_list sim_env_get sim_env_labels sim_env_create sim_env_commit
  sim_env_misc sim_env_anthropic sim_env_modify


lemma reader_token:
  "email_reader sim_env None \<lparr>world = token_mailbox, calls = cs, expired = x\<rparr> =
     (Inr \<lparr>nextPointer = Some ''p2'', emails = []\<rparr>,
      \<lparr>world = token_mailbox, calls = cs @ [EvMessagesList None], expired = x\<rparr>)"
  by (simp add: email_reader_def perform_def sim_env_calls truthy_def token_mailbox_def)

lemma reader_bad_token:
  "email_reader sim_env (Some ''bad'') \<lparr>world = one_mailbox, calls = cs, expired = x\<rparr> =
     (Inl (Exception ''Gmail API error: 400''),
      \<lparr>world = one_mailbox, calls = cs @ [EvMessagesList (Some ''bad'')], expired = x\<rparr>)"
  by (simp add: email_reader_def perform_def sim_env_calls truthy_def one_mailbox_def reraise_def)

lemma read_hello:
  "read_message sim_b64 (Suc 0) (plain_message ''m1'' ''t1'' ''aGVsbG8='') = hello_message"
  by (simp add: read_message_def plain_message_def payload_of_def message_body_def has_data_def
        data_of_def decode_body_def sim_b64_def extract_headers_def header_names_def get_str_def
        hello_message_def Let_def)

lemma reader_one:
  "email_reader sim_env None \<lparr>world = one_mailbox, calls = cs, expired = x\<rparr> =
     (Inr \<lparr>nextPointer = None, emails = [hello_thread]\<rparr>,
      \<lparr>world = one_mailbox, calls = cs @ [EvMessagesList None, EvThreadsGet ''t1''],
       expired = x\<rparr>)"
  by (simp add: email_reader_def perform_def sim_env_calls truthy_def
        one_mailbox_def read_thread_def read_hello get_str_def hello_thread_def)

lemma reader_two:
  "email_reader sim_env None \<lparr>world = two_mailbox, calls = cs, expired = x\<rparr> =
     (Inr \<lparr>nextPointer = Some ''p2'', emails = [two_thread]\<rparr>,
      \<lparr>world = two_mailbox, calls = cs @ [EvMessagesList None, EvThreadsGet ''t2''],
       expired = x\<rparr>)"
  by (simp add: email_reader_def perform_def sim_env_calls truthy_def
        two_mailbox_def read_thread_def get_str_def two_thread_def numeral_2_eq_2)

lemma combined_hello:
  "combined_text_of hello_message [hello_message] = ''hello'' @ [CHR 0x0A] @ ''hello''"
  by (simp add: combined_text_of_def hello_message_def)

lemma label_one:
  "label_thread sim_env hello_thread \<lparr>world = one_mailbox, calls = cs, expired = x\<rparr> =
    \<lparr>world = labelled_one,
      calls = cs @
        [EvAnthropic (''Return only one word. Email content: hello'' @ [CHR 0x0A] @ ''hello''),
         EvMessagesModify ''m1'' \<lparr>addLabelIds = None, removeLabelIds = Some GMAIL_SYSTEM_LABELS\<rparr>,
         EvLabelsList,
         EvLabelsCreate \<lparr>lo_name = ''FYI'', messageListVisibility = ''show'',
                          labelListVisibility = ''labelShow''\<rparr>,
         EvMessagesModify ''m1'' \<lparr>addLabelIds = Some [''Label_FYI''], removeLabelIds = None\<rparr>],
      expired = x\<rparr>"
proof -
  have m: "m_id hello_message = ''m1''" "\<not> isThreadMessage hello_message"
    by (simp_all add: hello_message_def)
  have t: "mainEmail hello_thread = Some hello_message"
    "threadMessages hello_thread = [hello_message]"
    by (simp_all add: hello_thread_def)
  have a: "mb_answer one_mailbox = Some '' FYI ''" by (simp add: one_mailbox_def)
  have l: "mb_labels one_mailbox = []" "mb_message_labels one_mailbox = [''m1'' \<mapsto> {''INBOX''}]"
    by (simp_all add: one_mailbox_def)
  have v: "''fyi'' \<in> set valid_labels" by (simp add: valid_labels_def)
  have n: "label_name_map ''fyi'' = ''FYI''" by (simp add: label_name_map_def)
  show ?thesis
    by (simp add: label_thread_def m t combined_hello analyze_with_anthropic_def perform_def
          sim_env_calls a l v n norm_FYI modify_message_labels_def build_modify_body_def
          nonempty_list_def gmail_modify_def get_or_create_label_id_def Let_def
          GMAIL_SYSTEM_LABELS_def labelled_one_def)
qed

text \<open>The calls of a cycle step that fetches, labels and commits on \<open>one_mailbox\<close>.\<close>

lemma process_one:
  "process_user_emails sim_env new_user \<lparr>world = one_mailbox, calls = cs, expired = False\<rparr> =
     (None, done_user,
      \<lparr>world = labelled_one,
       calls = cs @
        [EvMessagesList None, EvThreadsGet ''t1'',
         EvAnthropic (''Return only one word. Email content: hello'' @ [CHR 0x0A] @ ''hello''),
         EvMessagesModify ''m1'' \<lparr>addLabelIds = None, removeLabelIds = Some GMAIL_SYSTEM_LABELS\<rparr>,
         EvLabelsList,
         EvLabelsCreate \<lparr>lo_name = ''FYI'', messageListVisibility = ''show'',
                          labelListVisibility = ''labelShow''\<rparr>,
         EvMessagesModify ''m1'' \<lparr>addLabelIds = Some [''Label_FYI''], removeLabelIds = None\<rparr>,
         EvCommit],
       expired = False\<rparr>)"
proof -
  have p: "last_pointer new_user = None" by (simp add: new_user_def)
  have c: "mb_commit_ok labelled_one" "mb_clock labelled_one = 7"
    by (simp_all add: one_mailbox_def labelled_one_def)
  show ?thesis
    by (simp add: process_user_emails_def p reader_one label_email_def label_one perform_def
          sim_env_calls c truthy_def done_user_def Let_def)
qed

lemma process_bad:
  "process_user_emails sim_env bad_user \<lparr>world = one_mailbox, calls = cs, expired = False\<rparr> =
     (None, bad_user,
      \<lparr>world = one_mailbox, calls = cs @ [EvMessagesList (Some ''bad''), EvRollback],
       expired = True\<rparr>)"
proof -
  have p: "last_pointer bad_user = Some ''bad''" by (simp add: bad_user_def)
  show ?thesis
    by (simp add: process_user_emails_def p reader_bad_token rollback_def)
qed


lemma process_token:
  "process_user_emails sim_env new_user \<lparr>world = token_mailbox, calls = cs, expired = False\<rparr> =
     (None, new_user,
      \<lparr>world = token_mailbox, calls = cs @ [EvMessagesList None], expired = False\<rparr>)"
proof -
  have p: "last_pointer new_user = None" by (simp add: new_user_def)
  show ?thesis by (simp add: process_user_emails_def p reader_token)
qed

lemma user_flags:
  "onboarding_complete new_user = 0" "onboarding_complete bad_user = 0"
  "onboarding_complete done_user = 1"
  by (simp_all add: new_user_def bad_user_def done_user_def)

section \<open>OnboardingScheduler: one cycle, many cycles\<close>

lemma process_expired: "expired st \<Longrightarrow> process_user_emails E u st = (Some expired_row, u, st)"
  by (simp add: process_user_emails_def)

lemma process_fetch_error:
  "\<not> expired st \<Longrightarrow> fst (email_reader E (last_pointer u) st) = Inl e \<Longrightarrow>
   process_user_emails E u st = (None, u, rollback (snd (email_reader E (last_pointer u) st)))"
  by (simp add: process_user_emails_def case_prod_beta)

lemma process_empty_batch:
  "\<not> expired st \<Longrightarrow> fst (email_reader E (last_pointer u) st) = Inr out \<Longrightarrow> emails out = [] \<Longrightarrow>
   process_user_emails E u st = (None, u, snd (email_reader E (last_pointer u) st))"
  by (simp add: process_user_emails_def case_prod_beta)

text \<open>An exception leaves \<open>process_user_emails\<close> only with the rows expired.\<close>

lemma process_raised_expired:
  "fst (process_user_emails E u st) \<noteq> None \<Longrightarrow> expired (snd (snd (process_user_emails E u st)))"
  by (auto simp: process_user_emails_def rollback_def Let_def case_prod_beta
        split: if_splits sum.splits)

text \<open>With expired rows the loop changes nothing more.\<close>

lemma loop_expired: "expired st \<Longrightarrow> cycle_loop E us st = (us, st)"
  by (induction us) (simp_all add: case_prod_beta)

text \<open>
  One turn of the loop for a pending user: the row is the one \<open>process_user_emails\<close>
  leaves, and the loop goes on from its state (where it does nothing more, if the rows
  are expired by then).
\<close>

lemma loop_step:
  assumes "onboarding_complete u = 0"
  shows "cycle_loop E (u # us) st =
     (fst (snd (process_user_emails E u st))
        # fst (cycle_loop E us (snd (snd (process_user_emails E u st)))),
      snd (cycle_loop E us (snd (snd (process_user_emails E u st)))))"
proof (cases "expired st")
  case True
  then show ?thesis by (simp add: assms process_expired loop_expired)
next
  case False
  obtain r u' st1 where p: "process_user_emails E u st = (r, u', st1)"
    by (cases "process_user_emails E u st") auto
  show ?thesis
  proof (cases r)
    case None
    with p False assms show ?thesis by (simp add: case_prod_beta)
  next
    case (Some e)
    with p process_raised_expired [of E u st] have "expired st1" by simp
    with p Some False assms show ?thesis by (simp add: loop_expired)
  qed
qed


lemma loop_append:
  "cycle_loop E (xs @ ys) st =
     (fst (cycle_loop E xs st) @ fst (cycle_loop E ys (snd (cycle_loop E xs st))),
      snd (cycle_loop E ys (snd (cycle_loop E xs st))))"
proof (induction xs arbitrary: st)
  case Nil
  then show ?case by simp
next
  case (Cons u xs)
  show ?case
  proof (cases "onboarding_complete u = 0")
    case True
    from loop_step [OF True, of E "xs @ ys" st] loop_step [OF True, of E xs st]
    show ?thesis by (simp add: Cons.IH del: cycle_loop.simps)
  next
    case False
    then show ?thesis by (simp add: Cons.IH case_prod_beta)
  qed
qed

text \<open>A pending user in the middle of the table.\<close>

lemma loop_pending:
  assumes "onboarding_complete u = 0"
  shows "cycle_loop E (pre @ u # post) st =
     (fst (cycle_loop E pre st)
        @ fst (snd (process_user_emails E u (snd (cycle_loop E pre st))))
        # fst (cycle_loop E post
                 (snd (snd (process_user_emails E u (snd (cycle_loop E pre st)))))),
      snd (cycle_loop E post
                 (snd (snd (process_user_emails E u (snd (cycle_loop E pre st)))))))"
  by (simp add: loop_append loop_step [OF assms] del: cycle_loop.simps)




text \<open>The whole cycle, seen from a pending user in the middle of the table.\<close>

lemma cycle_pending:
  assumes "onboarding_complete u = 0"
  shows "run_onboarding_cycle E (pre @ u # post) st =
     (fst (run_onboarding_cycle E pre st)
        @ fst (snd (process_user_emails E u (snd (run_onboarding_cycle E pre st))))
        # fst (cycle_loop E post
                 (snd (snd (process_user_emails E u (snd (run_onboarding_cycle E pre st)))))),
      snd (cycle_loop E post
                 (snd (snd (process_user_emails E u (snd (run_onboarding_cycle E pre st)))))))"
  by (simp add: run_onboarding_cycle_def loop_pending [OF assms])

text \<open>
  A fetch that raises, for a pending user the loop has reached: the rollback expires the
  rows, and neither that user nor any later one is changed in this cycle.
\<close>

lemma fetch_error_stops_loop:
  assumes "onboarding_complete u = 0" "\<not> expired st"
    and "fst (email_reader E (last_pointer u) st) = Inl e"
  shows "cycle_loop E (u # post) st =
           (u # post, rollback (snd (email_reader E (last_pointer u) st)))"
proof -
  have "expired (rollback (snd (email_reader E (last_pointer u) st)))"
    by (simp add: rollback_def)
  then show ?thesis
    by (simp add: loop_step [OF assms(1)] process_fetch_error [OF assms(2,3)] loop_expired
          del: cycle_loop.simps)
qed

text \<open>
  C4, on the code.  The table has two pending users; the provider refuses the page token of
  the first.  The first user's row stays as it was, as the first half of C4 says.  But the
  handler's \<open>db.rollback()\<close> expires the rows of the session, the loop's next
  \<open>user.email\<close> raises, and the outer \<open>except\<close> ends the cycle: the second user is not
  processed (no fetch is made for that user and the row is unchanged), although the same
  user alone in the table is processed to the end of the mailbox.
\<close>

theorem fetch_error_ends_cycle:
  "fst (email_reader sim_env (last_pointer bad_user) (new_session (start_state one_mailbox)))
     = Inl (Exception ''Gmail API error: 400'')
   \<and> run_onboarding_cycle sim_env [bad_user, new_user] (start_state one_mailbox)
     = ([bad_user, new_user],
        \<lparr>world = one_mailbox, calls = [EvMessagesList (Some ''bad''), EvRollback],
         expired = True\<rparr>)
   \<and> fst (run_onboarding_cycle sim_env [new_user] (start_state one_mailbox)) = [done_user]"
proof -
  have p: "last_pointer bad_user = Some ''bad''" by (simp add: bad_user_def)
  show ?thesis
    by (simp add: run_onboarding_cycle_def new_session_def start_state_def user_flags p
          reader_bad_token process_bad process_one)
qed

text \<open>
  C7.  If the batch fetch for a pending user \<open>u\<close> succeeds and returns no thread, then
  after the cycle the stored row of \<open>u\<close> (cursor, onboarding-complete flag, sync
  timestamp) is the row it was before, whatever next-page token the fetch returned; the
  fetch is the only call made for \<open>u\<close>, and the loop goes on with the users after \<open>u\<close>
  in the state the fetch left.  (Where the cycle was over before it reached \<open>u\<close>, the
  row of \<open>u\<close> is unchanged as well, and so are the rows after it.)
\<close>

theorem empty_batch_no_change:
  assumes "onboarding_complete u = 0"
    and "fst (email_reader E (last_pointer u) (snd (run_onboarding_cycle E pre st))) = Inr out"
    and "emails out = []"
  shows "run_onboarding_cycle E (pre @ u # post) st =
     (fst (run_onboarding_cycle E pre st) @ u
        # fst (cycle_loop E post
            (if expired (snd (run_onboarding_cycle E pre st))
             then snd (run_onboarding_cycle E pre st)
             else snd (email_reader E (last_pointer u) (snd (run_onboarding_cycle E pre st))))),
      snd (cycle_loop E post
            (if expired (snd (run_onboarding_cycle E pre st))
             then snd (run_onboarding_cycle E pre st)
             else snd (email_reader E (last_pointer u) (snd (run_onboarding_cycle E pre st))))))"
proof (cases "expired (snd (run_onboarding_cycle E pre st))")
  case True
  then show ?thesis
    by (simp add: cycle_pending [OF assms(1)] process_expired)
next
  case False
  then show ?thesis
    by (simp add: cycle_pending [OF assms(1)] process_empty_batch [OF False assms(2,3)])
qed

text \<open>
  A fetch that returns the token \<open>p2\<close> and no thread, for two pending users: both rows
  are unchanged, and one fetch is made for each.
\<close>

theorem empty_batch_no_change_witness:
  "fst (email_reader sim_env (last_pointer new_user) (new_session (start_state token_mailbox)))
     = Inr \<lparr>nextPointer = Some ''p2'', emails = []\<rparr>
   \<and> run_onboarding_cycle sim_env [new_user, new_user] (start_state token_mailbox)
     = ([new_user, new_user],
        \<lparr>world = token_mailbox, calls = [EvMessagesList None, EvMessagesList None],
         expired = False\<rparr>)"
proof -
  let ?s0 = "\<lparr>world = token_mailbox, calls = [], expired = False\<rparr>"
  let ?s1 = "\<lparr>world = token_mailbox, calls = [EvMessagesList None], expired = False\<rparr>"
  let ?s2 = "\<lparr>world = token_mailbox, calls = [EvMessagesList None, EvMessagesList None],
              expired = False\<rparr>"
  have p: "last_pointer new_user = None" by (simp add: new_user_def)
  have n: "new_session (start_state token_mailbox) = ?s0"
    by (simp add: new_session_def start_state_def)
  have r: "run_onboarding_cycle sim_env [] (start_state token_mailbox) = ([], ?s0)"
    by (simp add: run_onboarding_cycle_def n)
  have d: "email_reader sim_env (last_pointer new_user) ?s0
             = (Inr \<lparr>nextPointer = Some ''p2'', emails = []\<rparr>, ?s1)"
    using reader_token [of "[]" False] by (simp add: p)
  have l: "cycle_loop sim_env [new_user] ?s1 = ([new_user], ?s2)"
    using process_token [of "[EvMessagesList None]"] by (simp add: user_flags)
  have e: "fst (email_reader sim_env (last_pointer new_user)
             (snd (run_onboarding_cycle sim_env [] (start_state token_mailbox))))
           = Inr \<lparr>nextPointer = Some ''p2'', emails = []\<rparr>"
    by (simp add: r d)
  have "run_onboarding_cycle sim_env ([] @ new_user # [new_user]) (start_state token_mailbox)
          = ([new_user, new_user], ?s2)"
    using empty_batch_no_change [of new_user sim_env "[]" "start_state token_mailbox"
          "\<lparr>nextPointer = Some ''p2'', emails = []\<rparr>" "[new_user]", OF user_flags(1) e]
    by (simp add: r d l del: cycle_loop.simps)
  then show ?thesis by (simp add: n d)
qed








section \<open>MailboxReader: what a batch holds\<close>

lemma read_thread_entry:
  "em \<in> set (read_thread b64 thread) \<Longrightarrow>
   threadMessages em \<noteq> [] \<and> mainEmail em = Some (hd (threadMessages em))
   \<and> (\<forall>x \<in> set (threadMessages em). isThreadMessage x = (1 < length (threadMessages em)))"
  by (auto simp: read_thread_def read_message_def Let_def split: list.splits option.splits)

lemma read_threads_entry:
  "fst (read_threads E ms st) = Inr es \<Longrightarrow> em \<in> set es \<Longrightarrow>
   \<exists>thread. em \<in> set (read_thread (b64decode E) thread)"
proof (induction ms arbitrary: st es)
  case Nil
  then show ?case by simp
next
  case (Cons m ms)
  then show ?case
    by (auto simp: case_prod_beta split: sum.splits)
qed

lemma email_reader_entry:
  assumes "fst (email_reader E p st) = Inr out" "em \<in> set (emails out)"
  shows "\<exists>thread. em \<in> set (read_thread (b64decode E) thread)"
proof -
  from assms obtain ms st1 where
    "fst (read_threads E ms st1) = Inr (emails out)"
    by (auto simp: email_reader_def Let_def case_prod_beta split: sum.splits)
  from read_threads_entry [OF this assms(2)] show ?thesis .
qed

lemma email_reader_flag:
  assumes "fst (email_reader E p st) = Inr out" "em \<in> set (emails out)"
  shows "threadMessages em \<noteq> [] \<and> mainEmail em = Some (hd (threadMessages em))
   \<and> (\<forall>x \<in> set (threadMessages em). isThreadMessage x = (1 < length (threadMessages em)))"
  using email_reader_entry [OF assms] read_thread_entry by blast

section \<open>Labeling pass: the calls it makes\<close>

lemma label_thread_skip:
  "mainEmail em = Some m \<Longrightarrow> isThreadMessage m \<Longrightarrow> label_thread E em st = st"
  by (simp add: label_thread_def)

lemma label_thread_unlabelled: "\<not> is_labelled em \<Longrightarrow> label_thread E em st = st"
  by (simp add: label_thread_def is_labelled_def split: option.splits)

lemma fold_removeAll_skip:
  "(\<And>s. f x s = s) \<Longrightarrow> fold f (removeAll x xs) s = fold f xs s"
  by (induction xs arbitrary: s) auto

lemma analyze_calls:
  "calls (snd (analyze_with_anthropic E t st)) = calls st @ [EvAnthropic (prompt E @ t)]"
  by (simp add: analyze_with_anthropic_def perform_def Let_def case_prod_beta
        split: sum.splits list.splits content_block.splits)

lemma get_or_create_calls:
  "\<exists>evs. calls (snd (get_or_create_label_id E n st)) = calls st @ evs
         \<and> modified_ids evs = [] \<and> classified_texts evs = []"
  by (auto simp: get_or_create_label_id_def perform_def Let_def case_prod_beta modified_ids_def
        classified_texts_def split: sum.splits option.splits)

lemma label_thread_calls:
  assumes "mainEmail em = Some m" "\<not> isThreadMessage m"
  shows "\<exists>evs. calls (label_thread E em st) = calls st @ evs
           \<and> set (modified_ids evs) = {m_id m}
           \<and> classified_texts evs = [prompt E @ combined_text_of m (threadMessages em)]"
proof -
  let ?t = "combined_text_of m (threadMessages em)"
  let ?a = "analyze_with_anthropic E ?t st"
  let ?r = "modify_message_labels E (m_id m) None (Some GMAIL_SYSTEM_LABELS) (snd ?a)"
  let ?g = "get_or_create_label_id E (label_name_map (fst ?a)) (snd ?r)"
  obtain evs where g: "calls (snd ?g) = calls (snd ?r) @ evs"
    "modified_ids evs = []" "classified_texts evs = []"
    using get_or_create_calls by blast
  have r: "calls (snd ?r) = calls st @ [EvAnthropic (prompt E @ ?t),
      EvMessagesModify (m_id m) (build_modify_body None (Some GMAIL_SYSTEM_LABELS))]"
    by (simp add: modify_message_labels_calls analyze_calls)
  show ?thesis
  proof (cases "fst ?g")
    case (Inl e)
    then have "label_thread E em st = snd ?g"
      by (simp add: label_thread_def assms case_prod_beta)
    with g r show ?thesis
      by (simp add: modified_ids_def classified_texts_def)
  next
    case (Inr lid)
    then have "label_thread E em st = snd (modify_message_labels E (m_id m) (Some [lid]) None (snd ?g))"
      by (simp add: label_thread_def assms case_prod_beta)
    with g r show ?thesis
      by (simp add: modified_ids_def classified_texts_def modify_message_labels_calls)
  qed
qed

lemma label_fold_calls:
  "\<exists>evs. calls (fold (label_thread E) es st) = calls st @ evs
         \<and> set (modified_ids evs) = set (labelled_ids \<lparr>nextPointer = p, emails = es\<rparr>)
         \<and> classified_texts evs = labelled_texts E \<lparr>nextPointer = p, emails = es\<rparr>"
proof (induction es arbitrary: st)
  case Nil
  then show ?case by (simp add: modified_ids_def classified_texts_def labelled_ids_def labelled_texts_def)
next
  case (Cons em es)
  obtain evs where t: "calls (fold (label_thread E) es (label_thread E em st))
        = calls (label_thread E em st) @ evs"
      "set (modified_ids evs) = set (labelled_ids \<lparr>nextPointer = p, emails = es\<rparr>)"
      "classified_texts evs = labelled_texts E \<lparr>nextPointer = p, emails = es\<rparr>"
    using Cons.IH by blast
  show ?case
  proof (cases "is_labelled em")
    case False
    with t show ?thesis
      by (simp add: label_thread_unlabelled labelled_ids_def labelled_texts_def)
  next
    case True
    then obtain m where m: "mainEmail em = Some m" "\<not> isThreadMessage m"
      by (auto simp: is_labelled_def split: option.splits)
    obtain hs where h: "calls (label_thread E em st) = calls st @ hs"
        "set (modified_ids hs) = {m_id m}"
        "classified_texts hs = [prompt E @ combined_text_of m (threadMessages em)]"
      using label_thread_calls [OF m] by blast
    have "set (modified_ids (hs @ evs)) = insert (m_id m) (set (modified_ids evs))"
      using h(2) by (simp add: modified_ids_def)
    with t h True m show ?thesis
      by (auto simp: labelled_ids_def labelled_texts_def classified_texts_def)
  qed
qed

lemma label_email_calls:
  "set (modified_ids (calls_since st (snd (label_email E out st)))) = set (labelled_ids out)
   \<and> classified_texts (calls_since st (snd (label_email E out st))) = labelled_texts E out"
proof -
  obtain evs where "calls (fold (label_thread E) (emails out) st) = calls st @ evs"
      "set (modified_ids evs) = set (labelled_ids \<lparr>nextPointer = nextPointer out, emails = emails out\<rparr>)"
      "classified_texts evs = labelled_texts E \<lparr>nextPointer = nextPointer out, emails = emails out\<rparr>"
    using label_fold_calls by blast
  then show ?thesis
    by (simp add: label_email_def calls_since_def labelled_ids_def labelled_texts_def)
qed

lemma racy_env_fields:
  "messages_list racy_env = messages_list sim_env" "labels_list racy_env = labels_list sim_env"
  "labels_create racy_env = labels_create sim_env" "messages_modify racy_env = gmail_modify"
  "anthropic_create racy_env = anthropic_create sim_env" "b64decode racy_env = sim_b64"
  "prompt racy_env = prompt sim_env"
  "threads_get racy_env tid w =
     (case map_of (mb_threads w) tid of
        None \<Rightarrow> (Inl (HttpError ''404''), w)
      | Some t \<Rightarrow> (Inr t, w\<lparr>mb_threads := remove1 (tid, t) (mb_threads w)\<rparr>))"
  by (simp_all add: racy_env_def sim_env_def)

lemma reader_racy:
  "email_reader racy_env None (start_state racy_mailbox) =
     (Inr racy_batch,
      \<lparr>world = racy_mailbox\<lparr>mb_threads := []\<rparr>,
       calls = [EvMessagesList None, EvThreadsGet ''t1'', EvThreadsGet ''t1''],
       expired = False\<rparr>)"
  by (simp add: email_reader_def perform_def racy_env_fields sim_env_calls truthy_def
        start_state_def racy_mailbox_def read_thread_def get_str_def racy_batch_def racy_first_def
        racy_second_def numeral_2_eq_2)

lemma racy_flags:
  "mainEmail racy_first = Some (read_message sim_b64 2 (plain_message ''m1'' ''t1'' ''aGk=''))"
  "isThreadMessage (read_message sim_b64 2 (plain_message ''m1'' ''t1'' ''aGk=''))"
  "map m_id (threadMessages racy_first) = [''m1'', ''m2'']"
  "mainEmail racy_second = Some (read_message sim_b64 1 (plain_message ''m1'' ''t1'' ''aGk=''))"
  "\<not> isThreadMessage (read_message sim_b64 1 (plain_message ''m1'' ''t1'' ''aGk=''))"
  "m_id (read_message sim_b64 1 (plain_message ''m1'' ''t1'' ''aGk='')) = ''m1''"
  by (simp_all add: racy_first_def racy_second_def read_message_def plain_message_def Let_def)

lemma racy_labels: "labelled_ids racy_batch = [''m1'']"
  by (simp add: labelled_ids_def racy_batch_def is_labelled_def racy_first_def racy_second_def
        read_message_def plain_message_def Let_def)

text \<open>
  C5, as stated, fails on the code.  In \<open>racy_mailbox\<close> the page lists two messages of the
  thread \<open>t1\<close>, and \<open>m2\<close> goes away between the two \<open>threads.get\<close> calls.  The batch that
  \<open>email_reader\<close> returns has the thread twice: first with the messages \<open>m1\<close> and \<open>m2\<close>,
  its main message \<open>m1\<close> flagged as a thread message, then with \<open>m1\<close> alone and not
  flagged.  The labeling pass skips the first entry and labels the second: \<open>m1\<close>, a
  message of the skipped thread, has labels removed and added.
\<close>

theorem reply_thread_counterexample:
  "fst (email_reader racy_env None (start_state racy_mailbox)) = Inr racy_batch
   \<and> emails racy_batch = [racy_first, racy_second]
   \<and> mainEmail racy_first = Some (read_message sim_b64 2 (plain_message ''m1'' ''t1'' ''aGk=''))
   \<and> isThreadMessage (read_message sim_b64 2 (plain_message ''m1'' ''t1'' ''aGk=''))
   \<and> map m_id (threadMessages racy_first) = [''m1'', ''m2'']
   \<and> set (modified_ids (calls_since (snd (email_reader racy_env None (start_state racy_mailbox)))
        (snd (label_email racy_env racy_batch
               (snd (email_reader racy_env None (start_state racy_mailbox)))))))
      = {''m1''}"
proof -
  have b: "emails racy_batch = [racy_first, racy_second]" by (simp add: racy_batch_def)
  from label_email_calls [of "snd (email_reader racy_env None (start_state racy_mailbox))"
      racy_env racy_batch]
  show ?thesis
    by (simp add: reader_racy racy_flags racy_labels b)
qed

text \<open>
  C5, amended.  Let a thread of the batch have a main message with \<open>isThreadMessage\<close> true.
  Then the labeling pass does nothing for it: its turn of the loop makes no call and
  changes nothing, and the whole pass ends as the pass on the batch without that thread.
  The classification calls of the pass are exactly those of the threads whose main message
  is not a thread message, and the messages on which the pass adds or removes a label are
  exactly the main messages of those threads: a message of the skipped thread is touched
  if and only if it is also the main message of a thread of the batch that is not skipped.
  In a batch that \<open>email_reader\<close> returned, the main message of a thread has
  \<open>isThreadMessage\<close> true exactly when the thread has more than one message.
\<close>

theorem reply_thread_not_labelled:
  assumes "em \<in> set (emails out)" "mainEmail em = Some main"
  shows "(isThreadMessage main \<longrightarrow>
           label_thread E em st' = st'
           \<and> label_email E out st = label_email E (out\<lparr>emails := removeAll em (emails out)\<rparr>) st)
    \<and> classified_texts (calls_since st (snd (label_email E out st))) = labelled_texts E out
    \<and> set (modified_ids (calls_since st (snd (label_email E out st)))) = set (labelled_ids out)
    \<and> set (modified_ids (calls_since st (snd (label_email E out st))))
         \<inter> m_id ` set (threadMessages em)
       = set (labelled_ids out) \<inter> m_id ` set (threadMessages em)
    \<and> (fst (email_reader E p st0) = Inr out \<longrightarrow>
         isThreadMessage main = (1 < length (threadMessages em)))"
proof -
  have skip: "label_thread E em s = s" if "isThreadMessage main" for s
    using assms(2) that by (rule label_thread_skip)
  have same: "label_email E out st = label_email E (out\<lparr>emails := removeAll em (emails out)\<rparr>) st"
    if "isThreadMessage main"
    by (simp add: label_email_def fold_removeAll_skip [of "label_thread E" em, OF skip [OF that]])
  have len: "isThreadMessage main = (1 < length (threadMessages em))"
    if "fst (email_reader E p st0) = Inr out"
    using email_reader_flag [OF that assms(1)] assms(2)
    by (metis hd_in_set option.inject)
  from skip same len label_email_calls [of st E out] show ?thesis
    by simp
qed

lemma two_thread_main:
  "mainEmail two_thread = Some (read_message sim_b64 2 (plain_message ''m2'' ''t2'' ''aGk=''))"
  "isThreadMessage (read_message sim_b64 2 (plain_message ''m2'' ''t2'' ''aGk=''))"
  "length (threadMessages two_thread) = 2"
  by (simp_all add: two_thread_def read_message_def Let_def)

text \<open>
  The thread of \<open>two_mailbox\<close> has two messages; the pass on the batch read from it makes
  no call, and no message is touched.
\<close>

theorem reply_thread_not_labelled_witness:
  "fst (email_reader sim_env None (start_state two_mailbox))
     = Inr \<lparr>nextPointer = Some ''p2'', emails = [two_thread]\<rparr>
   \<and> label_email sim_env \<lparr>nextPointer = Some ''p2'', emails = [two_thread]\<rparr>
        (snd (email_reader sim_env None (start_state two_mailbox)))
     = (''Labeling complete'',
        \<lparr>world = two_mailbox, calls = [EvMessagesList None, EvThreadsGet ''t2''],
         expired = False\<rparr>)
   \<and> labelled_ids \<lparr>nextPointer = Some ''p2'', emails = [two_thread]\<rparr> = []
   \<and> 1 < length (threadMessages two_thread)"
proof -
  have m: "two_thread \<in> set (emails \<lparr>nextPointer = Some ''p2'', emails = [two_thread]\<rparr>)"
    by simp
  have l: "labelled_ids \<lparr>nextPointer = Some ''p2'', emails = [two_thread]\<rparr> = []"
    by (simp add: labelled_ids_def is_labelled_def two_thread_main)
  from reply_thread_not_labelled [OF m two_thread_main(1), of sim_env
      "snd (email_reader sim_env None (start_state two_mailbox))"
      "snd (email_reader sim_env None (start_state two_mailbox))"
      None "start_state two_mailbox"] two_thread_main(2) l
  show ?thesis
    by (simp add: reader_two start_state_def label_email_def)
qed

section \<open>MailboxReader: the top-level body\<close>

text \<open>
  C10.  For a message whose payload has no part list, the body text that \<open>email_reader\<close>
  extracts is taken from the payload's top-level body: with inline data there, it is the
  decoded data (the empty string for empty data and for data the decoder rejects); with no
  top-level body or no inline data, it is the empty string.  In both cases the message is
  in the message list of its thread's entry.
\<close>

theorem top_level_body_fallback:
  assumes "pl_parts (payload_of msg) = None"
  shows "m_body (read_message b64 n msg) =
           (case pl_body (payload_of msg) of
              None \<Rightarrow> []
            | Some b \<Rightarrow>
                (case body_data b of
                   None \<Rightarrow> []
                 | Some d \<Rightarrow> if d = [] then [] else (case b64 d of None \<Rightarrow> [] | Some t \<Rightarrow> t)))
    \<and> (rt_messages thread = Some msgs \<and> msg \<in> set msgs \<longrightarrow>
         (\<exists>em. read_thread b64 thread = [em]
               \<and> threadMessages em = map (read_message b64 (length msgs)) msgs
               \<and> read_message b64 (length msgs) msg \<in> set (threadMessages em)))"
proof -
  have a: "m_body (read_message b64 n msg) =
           (case pl_body (payload_of msg) of
              None \<Rightarrow> []
            | Some b \<Rightarrow>
                (case body_data b of
                   None \<Rightarrow> []
                 | Some d \<Rightarrow> if d = [] then [] else (case b64 d of None \<Rightarrow> [] | Some t \<Rightarrow> t)))"
    using assms
    by (simp add: read_message_def message_body_def has_data_def data_of_def decode_body_def
          Let_def split: option.splits)
  have b: "\<exists>em. read_thread b64 thread = [em]
               \<and> threadMessages em = map (read_message b64 (length msgs)) msgs
               \<and> read_message b64 (length msgs) msg \<in> set (threadMessages em)"
    if "rt_messages thread = Some msgs" "msg \<in> set msgs"
  proof -
    from that(2) obtain x xs where "msgs = x # xs" by (cases msgs) auto
    with that show ?thesis by (auto simp: read_thread_def Let_def)
  qed
  from a b show ?thesis by blast
qed

lemma bare_payload: "pl_parts (payload_of bare_message) = None" "pl_body (payload_of bare_message) = None"
  by (simp_all add: payload_of_def bare_message_def empty_payload_def)

lemma hello_payload:
  "pl_parts (payload_of (plain_message ''m1'' ''t1'' ''aGVsbG8='')) = None"
  "pl_body (payload_of (plain_message ''m1'' ''t1'' ''aGVsbG8=''))
     = Some (PartBody (Some ''aGVsbG8='') None None)"
  by (simp_all add: payload_of_def plain_message_def)

text \<open>
  A message with the top-level data of \<open>hello\<close>, and a message with no payload at all,
  which is still the one message of its thread.
\<close>

theorem top_level_body_fallback_witness:
  "m_body (read_message sim_b64 1 (plain_message ''m1'' ''t1'' ''aGVsbG8='')) = ''hello''
   \<and> m_body (read_message sim_b64 1 bare_message) = []
   \<and> map m_id (threadMessages (hd (read_thread sim_b64
         \<lparr>rt_id = ''t9'', rt_historyId = None, rt_messages = Some [bare_message]\<rparr>))) = [''m9'']"
proof -
  let ?t = "\<lparr>rt_id = ''t9'', rt_historyId = None, rt_messages = Some [bare_message]\<rparr>"
  have t: "rt_messages ?t = Some [bare_message] \<and> bare_message \<in> set [bare_message]"
    by simp
  have i: "m_id (read_message sim_b64 (Suc 0) bare_message) = ''m9''"
    by (simp add: read_message_def bare_message_def Let_def)
  have d: "sim_b64 ''aGVsbG8='' = Some ''hello''" by (simp add: sim_b64_def)
  from top_level_body_fallback [OF bare_payload(1), of sim_b64 1 ?t "[bare_message]"]
    top_level_body_fallback [OF hello_payload(1), of sim_b64 1 ?t "[bare_message]"] t i
  show ?thesis
    by (auto simp: bare_payload hello_payload d)
qed

section \<open>ContentExtractor: plain text and HTML\<close>

text \<open>
  Among siblings without nested lists the first plain-text part with inline data gives the
  body, wherever the HTML parts are.
\<close>

lemma flat_plain_wins:
  "\<forall>p \<in> set ps. part_parts p = None \<Longrightarrow> find is_plain ps = Some q \<Longrightarrow>
   find_body_loop b64 body_text ps = decode_body b64 (data_of (part_body q))"
proof (induction ps arbitrary: body_text)
  case Nil
  then show ?case by simp
next
  case (Cons p ps)
  obtain mt fn bd where p: "p = Part mt fn bd None"
    using Cons.prems(1) by (cases p) auto
  show ?case
  proof (cases "is_plain p")
    case True
    with Cons.prems(2) have "q = p" by simp
    with True p show ?thesis by (simp add: is_plain_def)
  next
    case False
    with Cons.prems have "\<forall>p \<in> set ps. part_parts p = None" "find is_plain ps = Some q"
      by simp_all
    from Cons.IH [OF this] False p show ?thesis by (auto simp: is_plain_def)
  qed
qed

text \<open>
  C1, on the code.  The part list \<open>nested_html_then_plain\<close> holds an HTML part with inline
  data (inside the nested list of its first part) and a plain-text part with inline data
  (the second part).  \<open>_find_body_in_parts\<close> returns the HTML text: the nested call gives
  a non-empty result and the loop returns it before it reaches the plain-text sibling.
  With the same two parts as siblings, in the same order, it returns the plain text.
\<close>

theorem nested_html_before_plain:
  "find_body_in_parts sim_b64 (Some nested_html_then_plain) = ''<b>hi</b>''
   \<and> find_body_in_parts sim_b64 (Some html_then_plain) = ''hi''
   \<and> decode_body sim_b64 (data_of (part_body plain_part)) = ''hi''"
  by (simp add: find_body_in_parts_def nested_html_then_plain_def html_then_plain_def
        html_part_def plain_part_def mime_of_def has_data_def data_of_def decode_body_def
        sim_b64_def)

section \<open>Labeling pass: the text that is classified\<close>

text \<open>
  A thread that \<open>email_reader\<close> returned and the labeling pass does not skip has one
  message, its main message.  The loop over \<open>thread_messages\<close> therefore appends the main
  message's own body: a body that is not empty is sent to the classifier twice.
\<close>

lemma labelled_thread_text:
  assumes "fst (email_reader E p st) = Inr out" "em \<in> set (emails out)"
    and "mainEmail em = Some m" "\<not> isThreadMessage m"
  shows "threadMessages em = [m]
    \<and> combined_text_of m (threadMessages em)
        = (if m_body m = [] then [] else m_body m @ [CHR 0x0A] @ m_body m)"
proof -
  from email_reader_flag [OF assms(1,2)] assms(3)
  have h: "threadMessages em \<noteq> []" "m = hd (threadMessages em)"
    "\<forall>x \<in> set (threadMessages em). isThreadMessage x = (1 < length (threadMessages em))"
    by simp_all
  then have "isThreadMessage m = (1 < length (threadMessages em))" by simp
  with assms(4) h(1) have "length (threadMessages em) = 1"
    by (cases "threadMessages em") auto
  with h(2) have "threadMessages em = [m]"
    by (cases "threadMessages em") auto
  then show ?thesis by (simp add: combined_text_of_def)
qed

text \<open>
  C2, on the code.  \<open>one_mailbox\<close> has one thread of one message with the body \<open>hello\<close>.
  \<open>email_reader\<close> returns it with \<open>isThreadMessage\<close> false, and the labeling pass sends the
  classifier the instruction followed by \<open>hello\<close>, a newline, and \<open>hello\<close> again.
\<close>

theorem main_body_classified_twice:
  "fst (email_reader sim_env (last_pointer new_user) (start_state one_mailbox))
     = Inr \<lparr>nextPointer = None, emails = [hello_thread]\<rparr>
   \<and> mainEmail hello_thread = Some hello_message \<and> \<not> isThreadMessage hello_message
   \<and> m_body hello_message = ''hello''
   \<and> combined_text_of hello_message (threadMessages hello_thread)
       = ''hello'' @ [CHR 0x0A] @ ''hello''
   \<and> classified_texts
        (calls (snd (snd (process_user_emails sim_env new_user (start_state one_mailbox)))))
       = [prompt sim_env @ ''hello'' @ [CHR 0x0A] @ ''hello'']"
proof -
  have p: "last_pointer new_user = None" by (simp add: new_user_def)
  have t: "mainEmail hello_thread = Some hello_message"
    "threadMessages hello_thread = [hello_message]"
    by (simp_all add: hello_thread_def)
  have m: "\<not> isThreadMessage hello_message" "m_body hello_message = ''hello''"
    by (simp_all add: hello_message_def)
  show ?thesis
    by (simp add: p t m start_state_def reader_one process_one combined_hello
          classified_texts_def sim_env_misc)
qed

end
